theory Spec2Isabelle
  imports Main "HOL-Library.AList"
begin

section \<open>Values, errors and the outside world\<close>

text \<open>
  Go strings are byte sequences and \<open>len\<close> counts bytes; \<^typ>\<open>string\<close> is a list of
  8-bit characters, so \<^const>\<open>length\<close> is Go's \<open>len\<close>.

  A value of type \<open>interface{}\<close> as it occurs in this program (decoded JSON, and the
  map and slice literals that are handed to the JSON encoder). An object is kept as an
  association list; it is only ever read by key. Numbers are the integers of the literals;
  a decoded number is a number all the same, and no function looks at its value.
\<close>

datatype json =
    Null
  | Bool bool
  | Number int
  | String string
  | Array "json list"
  | Object "(string \<times> json) list"

text \<open>\<open>map[string]interface{}\<close>, read by key (a nil map reads as the empty map).\<close>

type_synonym arguments = "string \<rightharpoonup> json"

text \<open>One content block, \<open>map[string]interface{}\<close> built from a literal.\<close>

type_synonym block = "(string \<times> json) list"

text \<open>
  Errors of the chat-completion client (package go-openai): an API error carries the
  HTTP status code; a request cut off by its context reports the deadline.
\<close>

datatype api_error =
    APIError nat
  | DeadlineExceeded
  | RequestError string

text \<open>The \<open>error\<close> values that the tool produces or passes on.\<close>

datatype error =
    MissingRequiredFields
  | OpenFailed string
  | ReadFailed string
  | PromptTooLarge
  | Upstream api_error
  | NoResponse
  | MaxRetriesExceeded

text \<open>The message of each error built with \<open>fmt.Errorf\<close> in the source.\<close>

fun Errorf_text :: "error \<Rightarrow> string option" where
  "Errorf_text MissingRequiredFields = Some ''missing required fields''"
| "Errorf_text PromptTooLarge = Some ''prompt exceeds 20,000 token limit''"
| "Errorf_text NoResponse = Some ''no response from OpenAI''"
| "Errorf_text MaxRetriesExceeded = Some ''max retries exceeded''"
| "Errorf_text _ = None"

text \<open>\<open>time.Duration\<close>: nanoseconds.\<close>

type_synonym duration = nat

definition second :: duration where
  "second = 1000000000"

definition minute :: duration where
  "minute = 60 * second"

text \<open>A \<open>context.Context\<close>: its deadline, if it has one (\<open>context.Background()\<close> has none).\<close>

type_synonym Context = "nat option"

record ChatCompletionRequest =
  Model :: string
  Content :: string

text \<open>What a path holds when it is opened and read.\<close>

datatype fsnode = Missing | Unreadable | File string

text \<open>
  Everything the tool does to its surroundings is an event: reading a file, sending one
  chat-completion request, sleeping.
\<close>

datatype event =
    ReadFile string
  | ChatCompletion ChatCompletionRequest
  | Sleep duration

text \<open>
  The world: the clock, the events so far, the file system, and the upstream service.
  The service answers a request from what it is given: the context, the request, how many
  requests came before, and the time; it returns an error or the contents of the choices,
  and the time the exchange took. Log output is not part of the world.
\<close>

record world =
  now :: nat
  trace :: "event list"
  files :: "string \<Rightarrow> fsnode"
  upstream :: "Context \<Rightarrow> ChatCompletionRequest \<Rightarrow> nat \<Rightarrow> nat \<Rightarrow> (api_error + string list) \<times> duration"

fun is_call :: "event \<Rightarrow> bool" where
  "is_call (ChatCompletion _) = True"
| "is_call _ = False"

definition calls :: "world \<Rightarrow> nat" where
  "calls w = length (filter is_call (trace w))"

definition time_Sleep :: "duration \<Rightarrow> world \<Rightarrow> world" where
  "time_Sleep d w = w\<lparr>now := now w + d, trace := trace w @ [Sleep d]\<rparr>"

definition CreateChatCompletion ::
  "Context \<Rightarrow> ChatCompletionRequest \<Rightarrow> world \<Rightarrow> (api_error + string list) \<times> world" where
  "CreateChatCompletion ctx req w =
     (let (r, d) = upstream w ctx req (calls w) (now w)
      in (r, w\<lparr>now := now w + d, trace := trace w @ [ChatCompletion req]\<rparr>))"

section \<open>The get_help tool (gethelp.go)\<close>

record GetHelpTool =
  summaryPath :: string
  modelName :: string

definition NewGetHelpTool :: "string \<Rightarrow> string \<Rightarrow> GetHelpTool" where
  "NewGetHelpTool sp mn = \<lparr>summaryPath = sp, modelName = mn\<rparr>"

subsection \<open>buildPrompt\<close>

text \<open>
  \<open>fmt.Sprintf\<close> with string operands, read in one pass from left to right: \<open>%s\<close> and
  \<open>%v\<close> write the next operand as it is, \<open>%%\<close> writes a percent sign; a directive
  without operand, a percent sign at the end, a verb that strings do not have and
  left-over operands are reported in the output. Flags, widths, argument indexes and the
  verbs \<open>q\<close>, \<open>x\<close>, \<open>X\<close>, \<open>T\<close> are outside this fragment; the template has none of them.
\<close>

fun extra :: "string list \<Rightarrow> string" where
  "extra [] = []"
| "extra [a] = ''string='' @ a"
| "extra (a # b # bs) = ''string='' @ a @ '', '' @ extra (b # bs)"

fun Sprintf :: "string \<Rightarrow> string list \<Rightarrow> string" where
  "Sprintf [] [] = []"
| "Sprintf [] (a # as) = ''%!(EXTRA '' @ extra (a # as) @ '')''"
| "Sprintf [c] as = (if c = CHR ''%'' then ''%!(NOVERB)'' @ Sprintf [] as else c # Sprintf [] as)"
| "Sprintf (c # v # rest) as =
     (if c \<noteq> CHR ''%'' then c # Sprintf (v # rest) as
      else if v = CHR ''%'' then CHR ''%'' # Sprintf rest as
      else (case as of
              [] \<Rightarrow> ''%!'' @ [v] @ ''(MISSING)'' @ Sprintf rest []
            | a # bs \<Rightarrow>
                (if v = CHR ''s'' \<or> v = CHR ''v'' then a
                 else ''%!'' @ [v] @ ''(string='' @ a @ '')'') @ Sprintf rest bs))"

definition nl :: string where
  "nl = [CHR 0x0A]"

definition template :: string where
  "template =
     ''As a software architect, provide help with this issue:'' @ nl @
     nl @
     ''<summary>'' @ nl @
     ''%s'' @ nl @
     ''</summary>'' @ nl @
     nl @
     ''---'' @ nl @
     ''**Question:** %s'' @ nl @
     nl @
     ''**Relevant Code:** %s''"

definition buildPrompt :: "GetHelpTool \<Rightarrow> string \<Rightarrow> string \<Rightarrow> string \<Rightarrow> error + string" where
  "buildPrompt t summary question relevantCode =
     (let prompt = Sprintf template [summary, question, relevantCode]
      in if length prompt > 80000 then Inl PromptTooLarge else Inr prompt)"

subsection \<open>loadSummary\<close>

definition loadSummary :: "GetHelpTool \<Rightarrow> world \<Rightarrow> (error + string) \<times> world" where
  "loadSummary t w =
     (let path = (if summaryPath t = [] then ''./README.md'' else summaryPath t);
          w1 = w\<lparr>trace := trace w @ [ReadFile path]\<rparr>
      in case files w path of
           Missing \<Rightarrow> (Inl (OpenFailed path), w1)
         | Unreadable \<Rightarrow> (Inl (ReadFailed path), w1)
         | File content \<Rightarrow> (Inr content, w1))"

subsection \<open>askOpenAI\<close>

definition maxRetries :: nat where
  "maxRetries = 3"

definition backoffDurations :: "duration list" where
  "backoffDurations = [2 * second, 4 * second, 8 * second]"

text \<open>
  The loop \<open>for attempt := range maxRetries\<close>, entered at \<open>attempt\<close>. The index into
  \<open>backoffDurations\<close> is below \<open>maxRetries - 1\<close>, hence in range. The statement after the
  loop is the last branch.
\<close>

function askOpenAI_loop ::
  "Context \<Rightarrow> ChatCompletionRequest \<Rightarrow> nat \<Rightarrow> world \<Rightarrow> (error + string) \<times> world" where
  "askOpenAI_loop ctx req attempt w =
     (if attempt < maxRetries then
        (case CreateChatCompletion ctx req w of
           (Inl err, w1) \<Rightarrow>
             if attempt < maxRetries - 1
             then askOpenAI_loop ctx req (attempt + 1) (time_Sleep (backoffDurations ! attempt) w1)
             else (Inl (Upstream err), w1)
         | (Inr choices, w1) \<Rightarrow>
             (case choices of
                [] \<Rightarrow> (Inl NoResponse, w1)
              | c # _ \<Rightarrow> (Inr c, w1)))
      else (Inl MaxRetriesExceeded, w))"
  by pat_completeness auto
termination
  by (relation "measure (\<lambda>(ctx, req, attempt, w). maxRetries - attempt)") auto

definition askOpenAI :: "GetHelpTool \<Rightarrow> Context \<Rightarrow> string \<Rightarrow> world \<Rightarrow> (error + string) \<times> world" where
  "askOpenAI t ctx prompt w =
     (let model = (if modelName t = [] then ''o3'' else modelName t)
      in askOpenAI_loop ctx \<lparr>Model = model, Content = prompt\<rparr> 0 w)"

subsection \<open>Name, Description, Schema, Call\<close>

definition Name :: "GetHelpTool \<Rightarrow> string" where
  "Name t = ''get_help''"

definition Description :: "GetHelpTool \<Rightarrow> string" where
  "Description t = ''Escalate difficult problems to OpenAI for expert guidance''"

definition Schema :: "GetHelpTool \<Rightarrow> json" where
  "Schema t =
     Object [
       (''type'', String ''object''),
       (''properties'', Object [
          (''question'', Object [
             (''type'', String ''string''),
             (''description'', String ''The specific question or problem you need help with'')]),
          (''summary'', Object [
             (''type'', String ''string''),
             (''description'', String ''Brief summary of your project context'')]),
          (''relevant_code'', Object [
             (''type'', String ''string''),
             (''description'', String ''Any relevant code snippets (optional)'')])]),
       (''required'', Array [String ''question'', String ''summary''])]"

text \<open>The type assertion \<open>v.(string)\<close> in its two-value form, on the result of a map read.\<close>

fun assert_string :: "json option \<Rightarrow> string \<times> bool" where
  "assert_string (Some (String s)) = (s, True)"
| "assert_string _ = ([], False)"

definition text_block :: "string \<Rightarrow> block" where
  "text_block s = [(''type'', String ''text''), (''text'', String s)]"

definition unavailable :: string where
  "unavailable = ''The architect is currently unavailable. Please try again later.''"

definition Call :: "GetHelpTool \<Rightarrow> arguments \<Rightarrow> world \<Rightarrow> (block list \<times> error option) \<times> world" where
  "Call t arguments w =
     (let question = (case assert_string (arguments ''question'') of (q, ok) \<Rightarrow> if ok then q else []);
          summary = (case assert_string (arguments ''summary'') of (s, ok) \<Rightarrow> if ok then s else []);
          relevantCode = (case assert_string (arguments ''relevant_code'') of (rc, ok) \<Rightarrow> if ok then rc else [])
      in if question = [] \<or> summary = []
         then (([text_block ''Error: Missing required fields: question and summary''],
                Some MissingRequiredFields), w)
         else (case loadSummary t w of
                 (Inl err, w1) \<Rightarrow> (([text_block unavailable], Some err), w1)
               | (Inr projectSummary, w1) \<Rightarrow>
                   (case buildPrompt t projectSummary question relevantCode of
                      Inl err \<Rightarrow> (([text_block unavailable], Some err), w1)
                    | Inr prompt \<Rightarrow>
                        (let ctx = Some (now w1 + 3 * minute)
                         in case askOpenAI t ctx prompt w1 of
                              (Inl err, w2) \<Rightarrow> (([text_block unavailable], Some err), w2)
                            | (Inr answer, w2) \<Rightarrow> (([text_block answer], None), w2)))))"

section \<open>The MCP server\<close>

text \<open>The interface \<open>Tool\<close>: a value with the four methods.\<close>

record Tool =
  tool_Name :: string
  tool_Description :: string
  tool_Schema :: json
  tool_Call :: "arguments \<Rightarrow> world \<Rightarrow> (block list \<times> error option) \<times> world"

definition as_Tool :: "GetHelpTool \<Rightarrow> Tool" where
  "as_Tool t =
     \<lparr>tool_Name = Name t, tool_Description = Description t,
      tool_Schema = Schema t, tool_Call = Call t\<rparr>"

text \<open>\<open>json.RawMessage\<close> and request bodies: bytes.\<close>

type_synonym RawMessage = string

record JsonRPCRequest =
  req_Jsonrpc :: string
  req_ID :: int
  req_Method :: string
  req_Params :: RawMessage

text \<open>\<open>Result\<close> and \<open>Error\<close> have type \<open>interface{}\<close>: \<open>None\<close> is the nil interface.\<close>

record JsonRPCResponse =
  Jsonrpc :: string
  ID :: int
  Result :: "json option"
  Error :: "json option"

text \<open>The anonymous struct that \<open>HandleToolsCall\<close> decodes into.\<close>

record callParams =
  cp_Name :: string
  cp_Arguments :: arguments

text \<open>
  Package encoding/json is a parameter: \<open>Unmarshal\<close> decodes the bytes of \<open>params\<close> into
  the struct of \<open>HandleToolsCall\<close>, \<open>Decode\<close> decodes a request body into a
  \<open>map[string]interface{}\<close>; \<open>None\<close> is a returned error.
\<close>

record encoding_json =
  Unmarshal :: "RawMessage \<Rightarrow> callParams option"
  Decode :: "string \<Rightarrow> arguments option"

text \<open>
  The map \<open>tools\<close> is kept as an association list with distinct keys, so that
  \<open>HandleToolsList\<close> can range over it (Go does so in no particular order).
\<close>

record MCPServer =
  tools :: "(string \<times> Tool) list"
  serverInfo :: "(string \<times> string) list"

definition NewMCPServer :: "string \<Rightarrow> string \<Rightarrow> MCPServer" where
  "NewMCPServer name version =
     \<lparr>tools = [], serverInfo = [(''name'', name), (''version'', version)]\<rparr>"

definition RegisterTool :: "Tool \<Rightarrow> MCPServer \<Rightarrow> MCPServer" where
  "RegisterTool tool s = s\<lparr>tools := AList.update (tool_Name tool) tool (tools s)\<rparr>"

definition HandleInitialize :: "MCPServer \<Rightarrow> json" where
  "HandleInitialize s =
     Object [
       (''protocolVersion'', String ''2025-03-26''),
       (''capabilities'', Object [(''tools'', Object [])]),
       (''serverInfo'', Object (map (\<lambda>(k, v). (k, String v)) (serverInfo s)))]"

definition HandleToolsList :: "MCPServer \<Rightarrow> json" where
  "HandleToolsList s =
     Object [
       (''tools'',
        Array (map (\<lambda>(k, tool). Object [
                      (''name'', String (tool_Name tool)),
                      (''description'', String (tool_Description tool)),
                      (''inputSchema'', tool_Schema tool)])
                 (tools s)))]"

definition rpc_error :: "int \<Rightarrow> string \<Rightarrow> json" where
  "rpc_error code message = Object [(''code'', Number code), (''message'', String message)]"

text \<open>The two results of \<open>HandleToolsCall\<close> are maps; \<open>None\<close> is the nil map.\<close>

definition HandleToolsCall ::
  "encoding_json \<Rightarrow> MCPServer \<Rightarrow> RawMessage \<Rightarrow> world \<Rightarrow> (json option \<times> json option) \<times> world" where
  "HandleToolsCall js s params w =
     (case Unmarshal js params of
        None \<Rightarrow> ((None, Some (rpc_error (- 32602) ''Invalid params'')), w)
      | Some callParams \<Rightarrow>
          (case map_of (tools s) (cp_Name callParams) of
             None \<Rightarrow> ((None, Some (rpc_error (- 32602) ''Unknown tool'')), w)
           | Some tool \<Rightarrow>
               (case tool_Call tool (cp_Arguments callParams) w of
                  ((content, Some err), w1) \<Rightarrow>
                    ((Some (Object [(''content'', Array (map Object content)), (''isError'', Bool True)]),
                      None), w1)
                | ((content, None), w1) \<Rightarrow>
                    ((Some (Object [(''content'', Array (map Object content))]), None), w1))))"

definition ProcessRequest ::
  "encoding_json \<Rightarrow> MCPServer \<Rightarrow> JsonRPCRequest \<Rightarrow> world \<Rightarrow> JsonRPCResponse \<times> world" where
  "ProcessRequest js s req w =
     (let resp = \<lparr>Jsonrpc = ''2.0'', ID = req_ID req, Result = None, Error = None\<rparr>
      in if req_Method req = ''initialize'' then (resp\<lparr>Result := Some (HandleInitialize s)\<rparr>, w)
         else if req_Method req = ''tools/list'' then (resp\<lparr>Result := Some (HandleToolsList s)\<rparr>, w)
         else if req_Method req = ''tools/call'' then
           (case HandleToolsCall js s (req_Params req) w of
              ((result, errorResp), w1) \<Rightarrow>
                if errorResp \<noteq> None then (resp\<lparr>Error := errorResp\<rparr>, w1)
                else (resp\<lparr>Result := result\<rparr>, w1))
         else (resp\<lparr>Error := Some (rpc_error (- 32601) ''Method not found'')\<rparr>, w))"

subsection \<open>RunStdio\<close>

text \<open>
  Standard input is a sequence of texts, one per line, followed by the end of input. For
  the decoder a text is of one of three kinds: a JSON value that fits the request struct;
  a complete JSON value that does not fit it (a type error of \<open>Unmarshal\<close>); or text that
  is not JSON, which includes a value cut off by the end of input (a syntax error of the
  scanner).
\<close>

datatype line = Valid JsonRPCRequest | Mismatch | Malformed

text \<open>
  The \<open>json.Decoder\<close> on standard input: the input not yet consumed, and the error that
  the decoder keeps. \<open>Decode\<close> returns the kept error when there is one. Otherwise it
  reads the next value: a value that fits is consumed and returned; a value that does not
  fit is consumed and a type error is returned, which is not kept; a syntax error is
  returned and kept, so every later call returns it again; at the end of input it returns
  \<open>io.EOF\<close>.
\<close>

record Decoder =
  dec_input :: "line list"
  dec_err :: bool

definition NewDecoder :: "line list \<Rightarrow> Decoder" where
  "NewDecoder stdin = \<lparr>dec_input = stdin, dec_err = False\<rparr>"

text \<open>The outcome of one call of \<open>decoder.Decode(&req)\<close>: a request, an error other than
  \<open>io.EOF\<close>, or \<open>io.EOF\<close>.\<close>

datatype decoded = Request JsonRPCRequest | Failure | EOF

definition Decoder_Decode :: "Decoder \<Rightarrow> decoded \<times> Decoder" where
  "Decoder_Decode d =
     (if dec_err d then (Failure, d)
      else case dec_input d of
             [] \<Rightarrow> (EOF, d)
           | Valid req # rest \<Rightarrow> (Request req, d\<lparr>dec_input := rest\<rparr>)
           | Mismatch # rest \<Rightarrow> (Failure, d\<lparr>dec_input := rest\<rparr>)
           | Malformed # rest \<Rightarrow> (Failure, d\<lparr>dec_err := True\<rparr>))"

text \<open>
  The loop \<open>for { ... }\<close>; it need not end. Standard output is the list of responses
  handed to \<open>encoder.Encode\<close>, whose own failure is only logged.
\<close>

partial_function (option) RunStdio_loop ::
  "encoding_json \<Rightarrow> MCPServer \<Rightarrow> Decoder \<Rightarrow> JsonRPCResponse list \<Rightarrow> world
     \<Rightarrow> (JsonRPCResponse list \<times> world) option" where
  "RunStdio_loop js s decoder out w =
     (case Decoder_Decode decoder of
        (EOF, decoder1) \<Rightarrow> Some (out, w)
      | (Failure, decoder1) \<Rightarrow> RunStdio_loop js s decoder1 out w
      | (Request req, decoder1) \<Rightarrow>
          (case ProcessRequest js s req w of
             (resp, w1) \<Rightarrow> RunStdio_loop js s decoder1 (out @ [resp]) w1))"

definition RunStdio ::
  "encoding_json \<Rightarrow> MCPServer \<Rightarrow> line list \<Rightarrow> world \<Rightarrow> (JsonRPCResponse list \<times> world) option" where
  "RunStdio js s stdin w = RunStdio_loop js s (NewDecoder stdin) [] w"

subsection \<open>HandleHTTP\<close>

record Request_http =
  http_Method :: string
  http_Body :: string

text \<open>
  What the handler leaves in the response writer: the status, the content type, and the
  body, which is either bytes or a value written by the JSON encoder.
\<close>

datatype body = Bytes string | Encoded json

record Response =
  Code :: nat
  ContentType :: string
  Body :: body

text \<open>\<open>http.Error\<close>: plain text, the message followed by a newline.\<close>

definition http_Error :: "string \<Rightarrow> nat \<Rightarrow> Response" where
  "http_Error msg code =
     \<lparr>Code = code, ContentType = ''text/plain; charset=utf-8'', Body = Bytes (msg @ nl)\<rparr>"

text \<open>
  The handler either returns, and the response is what it wrote (status 200 and nothing
  else when it wrote nothing), or panics in the type assertion \<open>content[0]["text"].(string)\<close>.
\<close>

datatype handled = Written Response | Panicked

definition tool_not_available_json :: string where
  \<open>tool_not_available_json = ''{"error":"Tool not available"}''\<close>

definition unavailable_json :: string where
  \<open>unavailable_json =
     ''{"error":"The architect is currently unavailable. Please try again later."}''\<close>

definition HandleHTTP ::
  "encoding_json \<Rightarrow> MCPServer \<Rightarrow> Request_http \<Rightarrow> world \<Rightarrow> handled \<times> world" where
  "HandleHTTP js s r w =
     (if http_Method r \<noteq> ''POST'' then (Written (http_Error ''Method not allowed'' 405), w)
      else case Decode js (http_Body r) of
        None \<Rightarrow> (Written (http_Error ''malformed request'' 400), w)
      | Some arguments \<Rightarrow>
          (case map_of (tools s) ''get_help'' of
             None \<Rightarrow> (Written (http_Error tool_not_available_json 503), w)
           | Some tool \<Rightarrow>
               (case tool_Call tool arguments w of
                  ((content, Some err), w1) \<Rightarrow>
                    (Written (http_Error unavailable_json 503), w1)
                | ((content, None), w1) \<Rightarrow>
                    (case content of
                       [] \<Rightarrow> (Written \<lparr>Code = 200, ContentType = [], Body = Bytes []\<rparr>, w1)
                     | b # _ \<Rightarrow>
                         if map_of b ''type'' = Some (String ''text'') then
                           (case map_of b ''text'' of
                              Some (String answer) \<Rightarrow>
                                (Written \<lparr>Code = 200, ContentType = ''application/json'',
                                          Body = Encoded (Object [(''answer'', String answer)])\<rparr>, w1)
                            | _ \<Rightarrow> (Panicked, w1))
                         else (Written \<lparr>Code = 200, ContentType = [], Body = Bytes []\<rparr>, w1)))))"

section \<open>Notions of the specification\<close>

text \<open>
  The class of transient upstream errors, as the specification and the comment in the
  loop of \<open>askOpenAI\<close> describe it: rate limiting (status 429) and server-side errors
  (status 5xx). No function of the source computes it.
\<close>

fun transient :: "api_error \<Rightarrow> bool" where
  "transient (APIError code) = (code = 429 \<or> (500 \<le> code \<and> code < 600))"
| "transient _ = False"

text \<open>The time spent in \<open>time.Sleep\<close> according to a trace.\<close>

fun slept :: "event list \<Rightarrow> duration" where
  "slept [] = 0"
| "slept (Sleep d # evs) = d + slept evs"
| "slept (_ # evs) = slept evs"

text \<open>
  The template with the three fields in place, written out: what the specification calls
  the rendered prompt.
\<close>

definition rendered :: "string \<Rightarrow> string \<Rightarrow> string \<Rightarrow> string" where
  "rendered summary question relevantCode =
     ''As a software architect, provide help with this issue:'' @ nl @ nl @
     ''<summary>'' @ nl @ summary @ nl @ ''</summary>'' @ nl @ nl @
     ''---'' @ nl @ ''**Question:** '' @ question @ nl @ nl @
     ''**Relevant Code:** '' @ relevantCode"

text \<open>A required field that is absent from the arguments, or bound to the empty string.\<close>

definition missing :: "arguments \<Rightarrow> string \<Rightarrow> bool" where
  "missing arguments k = (arguments k = None \<or> arguments k = Some (String []))"

text \<open>A field that is present and bound to a value that is not a string.\<close>

fun is_String :: "json \<Rightarrow> bool" where
  "is_String (String _) = True"
| "is_String _ = False"

definition non_string :: "arguments \<Rightarrow> string \<Rightarrow> bool" where
  "non_string arguments k = (case arguments k of None \<Rightarrow> False | Some v \<Rightarrow> \<not> is_String v)"

text \<open>What \<open>Call\<close> returns when a required field is missing.\<close>

definition missing_fields_result :: "block list \<times> error option" where
  "missing_fields_result =
     ([[(''type'', String ''text''),
        (''text'', String ''Error: Missing required fields: question and summary'')]],
      Some MissingRequiredFields)"

text \<open>
  An upstream service honours a deadline when every request that starts at or after it
  is refused at once with the deadline error, as the HTTP client does for an expired
  context.
\<close>

definition honours :: "world \<Rightarrow> nat \<Rightarrow> bool" where
  "honours w d = (\<forall>req k t. d \<le> t \<longrightarrow> upstream w (Some d) req k t = (Inl DeadlineExceeded, 0))"

text \<open>
  The requests among the lines of standard input, and the responses that a list of
  requests calls for: the one of \<open>ProcessRequest\<close> for each, in order.
\<close>

fun requests :: "line list \<Rightarrow> JsonRPCRequest list" where
  "requests [] = []"
| "requests (Valid req # ls) = req # requests ls"
| "requests (_ # ls) = requests ls"

fun answers ::
  "encoding_json \<Rightarrow> MCPServer \<Rightarrow> JsonRPCRequest list \<Rightarrow> world \<Rightarrow> JsonRPCResponse list \<times> world" where
  "answers js s [] w = ([], w)"
| "answers js s (req # reqs) w =
     (case ProcessRequest js s req w of
        (resp, w1) \<Rightarrow> (case answers js s reqs w1 of (out, w2) \<Rightarrow> (resp # out, w2)))"

text \<open>
  The number of characters of a string in UTF-8: the bytes that do not continue a
  character (continuation bytes are those from 0x80 to 0xBF).
\<close>

definition continuation :: "char \<Rightarrow> bool" where
  "continuation c = (128 \<le> (of_char c :: nat) \<and> (of_char c :: nat) < 192)"

fun characters :: "string \<Rightarrow> nat" where
  "characters [] = 0"
| "characters (c # cs) = (if continuation c then characters cs else Suc (characters cs))"

text \<open>The letter e with acute accent: one character, two bytes.\<close>

definition e_acute :: string where
  "e_acute = [CHR 0xC3, CHR 0xA9]"

text \<open>The body that the specification gives to the response for an undecodable request.\<close>

definition malformed_json :: string where
  \<open>malformed_json = ''{"error":"malformed request"}''\<close>

section \<open>Stubs\<close>

text \<open>
  A scripted upstream service: request number \<open>k\<close> gets the \<open>k\<close>-th entry of the script,
  an outcome and the time it takes. It honours the deadline of the context: a request
  that starts after the deadline, or would end after it, fails with the deadline error.
\<close>

definition scripted ::
  "((api_error + string list) \<times> duration) list \<Rightarrow>
     Context \<Rightarrow> ChatCompletionRequest \<Rightarrow> nat \<Rightarrow> nat \<Rightarrow> (api_error + string list) \<times> duration" where
  "scripted script ctx req k t =
     (let (r, lat) = (if k < length script then script ! k else (Inl (RequestError ''unscripted''), 0))
      in case ctx of
           None \<Rightarrow> (r, lat)
         | Some d \<Rightarrow>
             if d \<le> t then (Inl DeadlineExceeded, 0)
             else if d < t + lat then (Inl DeadlineExceeded, d - t)
             else (r, lat))"

definition files0 :: "string \<Rightarrow> fsnode" where
  "files0 path = (if path = ''./README.md'' then File ''# MCP Escalator'' else Missing)"

definition world0 :: "((api_error + string list) \<times> duration) list \<Rightarrow> world" where
  "world0 script = \<lparr>now = 0, trace = [], files = files0, upstream = scripted script\<rparr>"

definition tool0 :: GetHelpTool where
  "tool0 = NewGetHelpTool [] ''gpt-4o''"

definition server0 :: MCPServer where
  "server0 = RegisterTool (as_Tool tool0) (NewMCPServer ''escalator'' ''1.0.0'')"

text \<open>A JSON decoder that knows a few texts and rejects every other.\<close>

definition stub_Unmarshal :: "RawMessage \<Rightarrow> callParams option" where
  \<open>stub_Unmarshal raw =
     (if raw = ''{"name":"get_help","arguments":{"question":"How do I test this?","summary":"Test project"}}''
      then Some \<lparr>cp_Name = ''get_help'',
                 cp_Arguments = [''question'' \<mapsto> String ''How do I test this?'',
                                 ''summary'' \<mapsto> String ''Test project'']\<rparr>
      else if raw = ''{"name":"nope","arguments":{}}''
      then Some \<lparr>cp_Name = ''nope'', cp_Arguments = Map.empty\<rparr>
      else None)\<close>

definition stub_Decode :: "string \<Rightarrow> arguments option" where
  \<open>stub_Decode b =
     (if b = ''{"question":"How do I test this?","summary":"Test project"}''
      then Some [''question'' \<mapsto> String ''How do I test this?'',
                 ''summary'' \<mapsto> String ''Test project'']
      else if b = ''{"summary":"Test project"}''
      then Some [''summary'' \<mapsto> String ''Test project'']
      else if b = ''{"question":42,"summary":"Test project"}''
      then Some [''question'' \<mapsto> Number 42, ''summary'' \<mapsto> String ''Test project'']
      else None)\<close>

definition stub_json :: encoding_json where
  "stub_json = \<lparr>Unmarshal = stub_Unmarshal, Decode = stub_Decode\<rparr>"

text \<open>The request that \<open>askOpenAI\<close> sends: the model of the tool, \<open>o3\<close> when it has none.\<close>

abbreviation the_request :: "GetHelpTool \<Rightarrow> string \<Rightarrow> ChatCompletionRequest" where
  "the_request t prompt \<equiv>
     \<lparr>Model = (if modelName t = [] then ''o3'' else modelName t), Content = prompt\<rparr>"

text \<open>Scripts: two transient failures and a success; a failed authentication and a
  success; a server error that arrives after 179 seconds; a success.\<close>

definition script_503_429_ok :: "((api_error + string list) \<times> duration) list" where
  "script_503_429_ok =
     [(Inl (APIError 503), second), (Inl (APIError 429), second),
      (Inr [''Use table-driven tests.''], second)]"

definition script_401_ok :: "((api_error + string list) \<times> duration) list" where
  "script_401_ok = [(Inl (APIError 401), second), (Inr [''Use table-driven tests.''], second)]"

definition script_slow_503 :: "((api_error + string list) \<times> duration) list" where
  "script_slow_503 = [(Inl (APIError 503), 179 * second)]"

definition script_ok :: "((api_error + string list) \<times> duration) list" where
  "script_ok = [(Inr [''Use table-driven tests.''], second)]"

section \<open>Auxiliary facts\<close>

lemma Sprintf_template:
  "Sprintf template [summary, question, relevantCode] = rendered summary question relevantCode"
  by (simp add: template_def rendered_def nl_def)

lemma length_rendered:
  "length (rendered summary question relevantCode) =
     118 + length summary + length question + length relevantCode"
  by (simp add: rendered_def nl_def)

lemma Call_early:
  assumes "(case assert_string (arguments ''question'') of (q, ok) \<Rightarrow> if ok then q else []) = [] \<or>
           (case assert_string (arguments ''summary'') of (s, ok) \<Rightarrow> if ok then s else []) = []"
  shows "Call t arguments w = (missing_fields_result, w)"
  using assms by (auto simp add: Call_def missing_fields_result_def text_block_def Let_def)

lemma assert_string_missing:
  "missing arguments k \<Longrightarrow>
     (case assert_string (arguments k) of (q, ok) \<Rightarrow> if ok then q else []) = []"
  by (auto simp: missing_def)

lemma assert_string_non_string:
  "non_string arguments k \<Longrightarrow>
     (case assert_string (arguments k) of (q, ok) \<Rightarrow> if ok then q else []) = []"
  by (cases "arguments k"; cases "the (arguments k)") (auto simp: non_string_def)

declare askOpenAI_loop.simps [simp del]

lemma loop_2:
  "askOpenAI_loop ctx req 2 w =
     (case CreateChatCompletion ctx req w of
        (Inl err, w1) \<Rightarrow> (Inl (Upstream err), w1)
      | (Inr choices, w1) \<Rightarrow>
          (case choices of [] \<Rightarrow> (Inl NoResponse, w1) | c # _ \<Rightarrow> (Inr c, w1)))"
  by (subst askOpenAI_loop.simps) (simp add: maxRetries_def split: prod.split sum.split list.split)

lemma loop_1:
  "askOpenAI_loop ctx req (Suc 0) w =
     (case CreateChatCompletion ctx req w of
        (Inl err, w1) \<Rightarrow> askOpenAI_loop ctx req 2 (time_Sleep (4 * second) w1)
      | (Inr choices, w1) \<Rightarrow>
          (case choices of [] \<Rightarrow> (Inl NoResponse, w1) | c # _ \<Rightarrow> (Inr c, w1)))"
  by (subst askOpenAI_loop.simps)
     (simp add: maxRetries_def backoffDurations_def numeral_2_eq_2
           split: prod.split sum.split list.split)

lemma loop_0:
  "askOpenAI_loop ctx req 0 w =
     (case CreateChatCompletion ctx req w of
        (Inl err, w1) \<Rightarrow> askOpenAI_loop ctx req (Suc 0) (time_Sleep (2 * second) w1)
      | (Inr choices, w1) \<Rightarrow>
          (case choices of [] \<Rightarrow> (Inl NoResponse, w1) | c # _ \<Rightarrow> (Inr c, w1)))"
  by (subst askOpenAI_loop.simps)
     (simp add: maxRetries_def backoffDurations_def split: prod.split sum.split list.split)

lemma slept_append: "slept (evs @ evs') = slept evs + slept evs'"
  by (induction evs rule: slept.induct) auto

lemma CreateChatCompletion_eq:
  "CreateChatCompletion ctx req w =
     (fst (upstream w ctx req (calls w) (now w)),
      w\<lparr>now := now w + snd (upstream w ctx req (calls w) (now w)),
        trace := trace w @ [ChatCompletion req]\<rparr>)"
  by (simp add: CreateChatCompletion_def split: prod.split)

lemma loop_trace:
  "trace (snd (askOpenAI_loop ctx req 0 w)) = trace w @ [ChatCompletion req] \<or>
   trace (snd (askOpenAI_loop ctx req 0 w)) =
     trace w @ [ChatCompletion req, Sleep (2 * second), ChatCompletion req] \<or>
   trace (snd (askOpenAI_loop ctx req 0 w)) =
     trace w @ [ChatCompletion req, Sleep (2 * second), ChatCompletion req,
                Sleep (4 * second), ChatCompletion req]"
  by (simp add: loop_0 loop_1 loop_2 CreateChatCompletion_eq time_Sleep_def
           split: sum.split list.split)

lemma loop_scenario:
  assumes "\<forall>\<tau>. fst (upstream w ctx req (calls w) \<tau>) = Inl e1"
      and "\<forall>\<tau>. fst (upstream w ctx req (calls w + 1) \<tau>) = Inl e2"
      and "\<forall>\<tau>. fst (upstream w ctx req (calls w + 2) \<tau>) = Inr (a # as)"
  shows "fst (askOpenAI_loop ctx req 0 w) = Inr a \<and>
         trace (snd (askOpenAI_loop ctx req 0 w)) =
           trace w @ [ChatCompletion req, Sleep (2 * second), ChatCompletion req,
                      Sleep (4 * second), ChatCompletion req]"
  using assms
  by (simp add: loop_0 loop_1 loop_2 CreateChatCompletion_eq time_Sleep_def calls_def)

lemma Call_success_content:
  "Call t arguments w = ((content, None), w1) \<Longrightarrow> \<exists>answer. content = [text_block answer]"
  by (auto simp: Call_def Let_def split: if_splits prod.splits sum.splits)

lemma RunStdio_loop_answers:
  assumes "Malformed \<notin> set ls"
  shows "RunStdio_loop js s \<lparr>dec_input = ls, dec_err = False\<rparr> out w =
           Some (case answers js s (requests ls) w of (out', w') \<Rightarrow> (out @ out', w'))"
  using assms
proof (induction ls arbitrary: out w)
  case Nil
  show ?case
    by (subst RunStdio_loop.simps) (simp add: Decoder_Decode_def)
next
  case (Cons l ls)
  then have IH: "RunStdio_loop js s \<lparr>dec_input = ls, dec_err = False\<rparr> out' w' =
      Some (case answers js s (requests ls) w' of (o', w'') \<Rightarrow> (out' @ o', w''))" for out' w'
    by simp
  show ?case
  proof (cases l)
    case (Valid req)
    then show ?thesis
      by (subst RunStdio_loop.simps) (simp add: Decoder_Decode_def IH split: prod.split)
  next
    case Mismatch
    then show ?thesis
      by (subst RunStdio_loop.simps) (simp add: Decoder_Decode_def IH)
  next
    case Malformed
    with Cons.prems show ?thesis by simp
  qed
qed

lemma RunStdio_loop_returns:
  assumes "RunStdio_loop js s decoder out w = Some y"
  shows "\<not> dec_err decoder \<and> Malformed \<notin> set (dec_input decoder)"
proof (rule RunStdio_loop.raw_induct
         [where P = "\<lambda>js s decoder out w y. \<not> dec_err decoder \<and> Malformed \<notin> set (dec_input decoder)",
          OF _ assms])
  fix loop js s decoder out w y
  assume IH: "\<And>js s decoder out w y. loop js s decoder out w = Some y \<Longrightarrow>
                \<not> dec_err decoder \<and> Malformed \<notin> set (dec_input decoder)"
    and step: "(case Decoder_Decode decoder of
                  (Request req, decoder1) \<Rightarrow>
                    (case ProcessRequest js s req w of
                       (resp, w1) \<Rightarrow> loop js s decoder1 (out @ [resp]) w1)
                | (Failure, decoder1) \<Rightarrow> loop js s decoder1 out w
                | (EOF, decoder1) \<Rightarrow> Some (out, w)) = Some y"
  show "\<not> dec_err decoder \<and> Malformed \<notin> set (dec_input decoder)"
  proof (cases "dec_err decoder")
    case True
    with step have "loop js s decoder out w = Some y"
      by (simp add: Decoder_Decode_def)
    from IH [OF this] True show ?thesis by simp
  next
    case False
    show ?thesis
    proof (cases "dec_input decoder")
      case Nil
      with False show ?thesis by simp
    next
      case (Cons l rest)
      show ?thesis
      proof (cases l)
        case (Valid req)
        with step False Cons obtain out' w' where
          "loop js s (decoder\<lparr>dec_input := rest\<rparr>) out' w' = Some y"
          by (auto simp: Decoder_Decode_def split: prod.splits)
        from IH [OF this] False Cons Valid show ?thesis by simp
      next
        case Mismatch
        with step False Cons have "loop js s (decoder\<lparr>dec_input := rest\<rparr>) out w = Some y"
          by (simp add: Decoder_Decode_def)
        from IH [OF this] False Cons Mismatch show ?thesis by simp
      next
        case Malformed
        with step False Cons have "loop js s (decoder\<lparr>dec_err := True\<rparr>) out w = Some y"
          by (simp add: Decoder_Decode_def)
        from IH [OF this] show ?thesis by simp
      qed
    qed
  qed
qed

lemma characters_append: "characters (xs @ ys) = characters xs + characters ys"
  by (induction xs) auto

lemma characters_e_acute: "characters (concat (replicate n e_acute)) = n"
  by (induction n) (auto simp: e_acute_def continuation_def)

lemma length_e_acute: "length (concat (replicate n e_acute)) = 2 * n"
  by (induction n) (auto simp: e_acute_def)

lemma get_help_registered: "map_of (tools server0) ''get_help'' = Some (as_Tool tool0)"
  by (simp add: server0_def RegisterTool_def NewMCPServer_def as_Tool_def Name_def)

lemma Call_ok:
  "Call tool0 [''question'' \<mapsto> String ''How do I test this?'', ''summary'' \<mapsto> String ''Test project'']
     (world0 script_ok) =
   (([text_block ''Use table-driven tests.''], None),
    (world0 script_ok)
      \<lparr>now := second,
       trace := [ReadFile ''./README.md'',
                 ChatCompletion \<lparr>Model = ''gpt-4o'',
                   Content = rendered ''# MCP Escalator'' ''How do I test this?'' []\<rparr>]\<rparr>)"
  by (simp add: Call_def Let_def loadSummary_def tool0_def NewGetHelpTool_def world0_def files0_def
        buildPrompt_def Sprintf_template length_rendered askOpenAI_def loop_0
        CreateChatCompletion_eq calls_def scripted_def script_ok_def minute_def second_def)

section \<open>The prompt assembler\<close>

text \<open>
  Claim C6, as stated, fails: the limit is on bytes, not on characters. A summary of 39942
  letters of two bytes each gives a prompt of 40060 characters, far below 80000, and of
  80002 bytes; it is rejected.
\<close>

theorem buildPrompt_characters_counterexample:
  "buildPrompt tool0 (concat (replicate 39942 e_acute)) [] [] = Inl PromptTooLarge \<and>
   characters (Sprintf template [concat (replicate 39942 e_acute), [], []]) = 40060 \<and>
   length (Sprintf template [concat (replicate 39942 e_acute), [], []]) = 80002"
  by (simp add: buildPrompt_def Sprintf_template length_rendered length_e_acute
        rendered_def nl_def characters_append characters_e_acute continuation_def)

text \<open>
  Claim C6, amended. For every summary, question and relevant code, \<open>buildPrompt\<close> renders
  the fixed template with the three fields put in as they are (the result of
  \<open>fmt.Sprintf\<close> on the template is the template text with each \<open>%s\<close> replaced by its
  field, whatever the field contains). It fails with the error "prompt exceeds 20,000
  token limit" exactly when the length of the rendered prompt in bytes, which is what
  \<open>len\<close> counts, exceeds 80000, and otherwise returns the rendered prompt itself, never a
  shortened one.
\<close>

theorem buildPrompt_renders_or_rejects:
  "Sprintf template [summary, question, relevantCode] = rendered summary question relevantCode \<and>
   buildPrompt t summary question relevantCode =
     (if 80000 < length (rendered summary question relevantCode) then Inl PromptTooLarge
      else Inr (rendered summary question relevantCode)) \<and>
   Errorf_text PromptTooLarge = Some ''prompt exceeds 20,000 token limit''"
  by (simp add: buildPrompt_def Sprintf_template)

text \<open>
  The limit is met exactly: with 118 bytes of template text, a summary of 79882 bytes is
  accepted and one of 79883 bytes is rejected. Fields that look like directives are not
  interpreted.
\<close>

theorem buildPrompt_renders_or_rejects_witness:
  "buildPrompt tool0 (replicate 79882 (CHR ''a'')) [] [] =
     Inr (rendered (replicate 79882 (CHR ''a'')) [] []) \<and>
   buildPrompt tool0 (replicate 79883 (CHR ''a'')) [] [] = Inl PromptTooLarge \<and>
   buildPrompt tool0 ''%s'' ''100%'' ''%d'' = Inr (rendered ''%s'' ''100%'' ''%d'')"
  using buildPrompt_renders_or_rejects [of "replicate 79882 (CHR ''a'')" "[]" "[]" tool0]
        buildPrompt_renders_or_rejects [of "replicate 79883 (CHR ''a'')" "[]" "[]" tool0]
        buildPrompt_renders_or_rejects [of "''%s''" "''100%''" "''%d''" tool0]
  by (simp add: length_rendered)

section \<open>The required fields of Call\<close>

text \<open>
  Claim C5. For every arguments map in which \<open>question\<close> or \<open>summary\<close> is missing or
  empty, \<open>Call\<close> fails at once with the error "missing required fields" and a single text
  block that carries the message for the reader. The world is returned as it was: no file
  was read, no request was sent, no time has passed; the prompt is built only after the
  summary file is read.
\<close>

theorem Call_missing_required_fields:
  assumes "missing arguments ''question'' \<or> missing arguments ''summary''"
  shows "Call t arguments w = (missing_fields_result, w) \<and>
         Errorf_text MissingRequiredFields = Some ''missing required fields''"
  using assms Call_early [of arguments t w] by (auto dest: assert_string_missing)

theorem Call_missing_required_fields_witness:
  "missing [''summary'' \<mapsto> String ''test summary''] ''question'' \<and>
   Call tool0 [''summary'' \<mapsto> String ''test summary''] (world0 []) =
     (missing_fields_result, world0 [])"
  using Call_missing_required_fields
          [of "[''summary'' \<mapsto> String ''test summary'']" tool0 "world0 []"]
  by (simp add: missing_def)

text \<open>
  Claim C10. For every arguments map in which \<open>question\<close> or \<open>summary\<close> is present but
  bound to a value that is not a string, \<open>Call\<close> treats the field as missing: the result is
  the missing-fields error with its text block, the same as when that field is removed
  from the map, and the world is returned as it was.
\<close>

theorem Call_non_string_field:
  assumes "k = ''question'' \<or> k = ''summary''" and "non_string arguments k"
  shows "Call t arguments w = (missing_fields_result, w) \<and>
         Call t arguments w = Call t (arguments(k := None)) w"
  using assms Call_early [of arguments t w] Call_early [of "arguments(k := None)" t w]
  by (auto dest: assert_string_non_string)

theorem Call_non_string_field_witness:
  "non_string [''question'' \<mapsto> Number 42, ''summary'' \<mapsto> String ''Test project''] ''question'' \<and>
   Call tool0 [''question'' \<mapsto> Number 42, ''summary'' \<mapsto> String ''Test project''] (world0 []) =
     (missing_fields_result, world0 [])"
  using Call_non_string_field
          [of "''question''" "[''question'' \<mapsto> Number 42, ''summary'' \<mapsto> String ''Test project'']"
              tool0 "world0 []"]
  by (simp add: non_string_def)

section \<open>The upstream client\<close>

text \<open>
  Claim C3. The client makes at most three attempts, with fixed delays of 2 seconds and
  then 4 seconds between them: whatever the upstream service does, the events of one call
  of \<open>askOpenAI\<close> are one request, or two requests with a sleep of 2 seconds between them,
  or three requests with sleeps of 2 and 4 seconds between them. In particular, when the
  service fails on the first and on the second attempt and succeeds on the third, the call
  returns the content of the first choice of the third answer, after exactly three
  requests, and the time slept is 2 seconds plus 4 seconds.
\<close>

theorem askOpenAI_attempts_and_backoff:
  "(trace (snd (askOpenAI t ctx prompt w)) = trace w @ [ChatCompletion (the_request t prompt)] \<or>
    trace (snd (askOpenAI t ctx prompt w)) =
      trace w @ [ChatCompletion (the_request t prompt), Sleep (2 * second),
                 ChatCompletion (the_request t prompt)] \<or>
    trace (snd (askOpenAI t ctx prompt w)) =
      trace w @ [ChatCompletion (the_request t prompt), Sleep (2 * second),
                 ChatCompletion (the_request t prompt), Sleep (4 * second),
                 ChatCompletion (the_request t prompt)]) \<and>
   calls (snd (askOpenAI t ctx prompt w)) \<le> calls w + 3 \<and>
   ((\<forall>\<tau>. fst (upstream w ctx (the_request t prompt) (calls w) \<tau>) = Inl e1) \<and>
    (\<forall>\<tau>. fst (upstream w ctx (the_request t prompt) (calls w + 1) \<tau>) = Inl e2) \<and>
    (\<forall>\<tau>. fst (upstream w ctx (the_request t prompt) (calls w + 2) \<tau>) = Inr (a # as)) \<longrightarrow>
    fst (askOpenAI t ctx prompt w) = Inr a \<and>
    trace (snd (askOpenAI t ctx prompt w)) =
      trace w @ [ChatCompletion (the_request t prompt), Sleep (2 * second),
                 ChatCompletion (the_request t prompt), Sleep (4 * second),
                 ChatCompletion (the_request t prompt)] \<and>
    calls (snd (askOpenAI t ctx prompt w)) = calls w + 3 \<and>
    slept (trace (snd (askOpenAI t ctx prompt w))) = slept (trace w) + (2 * second + 4 * second))"
proof -
  let ?req = "the_request t prompt"
  have ask: "askOpenAI t ctx prompt w = askOpenAI_loop ctx ?req 0 w"
    by (simp add: askOpenAI_def Let_def)
  have shape: "trace (snd (askOpenAI t ctx prompt w)) = trace w @ [ChatCompletion ?req] \<or>
    trace (snd (askOpenAI t ctx prompt w)) =
      trace w @ [ChatCompletion ?req, Sleep (2 * second), ChatCompletion ?req] \<or>
    trace (snd (askOpenAI t ctx prompt w)) =
      trace w @ [ChatCompletion ?req, Sleep (2 * second), ChatCompletion ?req,
                 Sleep (4 * second), ChatCompletion ?req]"
    unfolding ask by (rule loop_trace)
  from shape have bound: "calls (snd (askOpenAI t ctx prompt w)) \<le> calls w + 3"
    by (auto simp: calls_def)
  have scen: "fst (askOpenAI t ctx prompt w) = Inr a \<and>
    trace (snd (askOpenAI t ctx prompt w)) =
      trace w @ [ChatCompletion ?req, Sleep (2 * second), ChatCompletion ?req,
                 Sleep (4 * second), ChatCompletion ?req] \<and>
    calls (snd (askOpenAI t ctx prompt w)) = calls w + 3 \<and>
    slept (trace (snd (askOpenAI t ctx prompt w))) = slept (trace w) + (2 * second + 4 * second)"
    if "(\<forall>\<tau>. fst (upstream w ctx ?req (calls w) \<tau>) = Inl e1) \<and>
        (\<forall>\<tau>. fst (upstream w ctx ?req (calls w + 1) \<tau>) = Inl e2) \<and>
        (\<forall>\<tau>. fst (upstream w ctx ?req (calls w + 2) \<tau>) = Inr (a # as))"
    using loop_scenario [of w ctx ?req e1 e2 a as] that
    unfolding ask by (simp add: calls_def slept_append)
  from shape bound scen show ?thesis by blast
qed

theorem askOpenAI_attempts_and_backoff_witness:
  "fst (askOpenAI tool0 None ''prompt'' (world0 script_503_429_ok)) = Inr ''Use table-driven tests.'' \<and>
   calls (snd (askOpenAI tool0 None ''prompt'' (world0 script_503_429_ok))) = 3 \<and>
   slept (trace (snd (askOpenAI tool0 None ''prompt'' (world0 script_503_429_ok)))) = 6 * second"
  using askOpenAI_attempts_and_backoff
          [of tool0 None "''prompt''" "world0 script_503_429_ok" "APIError 503" "APIError 429"
              "''Use table-driven tests.''" "[]"]
  by (simp add: world0_def scripted_def script_503_429_ok_def calls_def)

text \<open>
  Claim C1. The client should retry only on transient errors and fail at once on any
  other. The loop does not look at the error: its comment announces a check for a
  retryable error (429 or 5xx), and the condition that follows tests the attempt number
  only. Here the service refuses the first request with status 401, which is not
  transient; \<open>askOpenAI\<close> sleeps 2 seconds, sends the request again and returns the answer
  of the second attempt.
\<close>

theorem askOpenAI_retries_nontransient_error:
  "\<not> transient (APIError 401) \<and>
   askOpenAI tool0 None ''prompt'' (world0 script_401_ok) =
     (Inr ''Use table-driven tests.'',
      (world0 script_401_ok)
        \<lparr>now := 4 * second,
         trace := [ChatCompletion (the_request tool0 ''prompt''), Sleep (2 * second),
                   ChatCompletion (the_request tool0 ''prompt'')]\<rparr>)"
  by (simp add: askOpenAI_def Let_def loop_0 loop_1 CreateChatCompletion_eq time_Sleep_def calls_def
        world0_def scripted_def script_401_ok_def tool0_def NewGetHelpTool_def)

text \<open>
  Claim C2, as stated, fails: the deadline is 180 seconds, the first attempt fails after
  179 seconds, and the deadline passes during the sleep of 2 seconds. The call does not
  fail then: it sends the second request, sleeps 4 seconds more, sends the third request,
  and returns at 185 seconds.
\<close>

theorem askOpenAI_deadline_counterexample:
  "askOpenAI tool0 (Some (180 * second)) ''prompt'' (world0 script_slow_503) =
     (Inl (Upstream DeadlineExceeded),
      (world0 script_slow_503)
        \<lparr>now := 185 * second,
         trace := [ChatCompletion (the_request tool0 ''prompt''), Sleep (2 * second),
                   ChatCompletion (the_request tool0 ''prompt''), Sleep (4 * second),
                   ChatCompletion (the_request tool0 ''prompt'')]\<rparr>)"
  by (simp add: askOpenAI_def Let_def loop_0 loop_1 loop_2 CreateChatCompletion_eq time_Sleep_def
        calls_def world0_def scripted_def script_slow_503_def tool0_def NewGetHelpTool_def second_def)

text \<open>
  Claim C2, amended. The deadline is handed to every request and is enforced there only;
  the retry loop never looks at it. When the first two attempts fail and the deadline has
  passed by the end of the second sleep (during an attempt, during a sleep, or between
  them), and the service refuses requests after the deadline, the call does not fail
  when the deadline passes: both sleeps run to their end, all three requests are sent,
  and the call then fails with the deadline error of the third request.
\<close>

theorem askOpenAI_finishes_schedule_after_deadline:
  assumes "honours w d"
      and "upstream w (Some d) (the_request t prompt) (calls w) (now w) = (Inl e1, lat1)"
      and "upstream w (Some d) (the_request t prompt) (calls w + 1) (now w + lat1 + 2 * second) =
             (Inl e2, lat2)"
      and "d \<le> now w + lat1 + 2 * second + lat2 + 4 * second"
  shows "askOpenAI t (Some d) prompt w =
           (Inl (Upstream DeadlineExceeded),
            w\<lparr>now := now w + lat1 + 2 * second + lat2 + 4 * second,
              trace := trace w @
                [ChatCompletion (the_request t prompt), Sleep (2 * second),
                 ChatCompletion (the_request t prompt), Sleep (4 * second),
                 ChatCompletion (the_request t prompt)]\<rparr>)"
proof -
  let ?req = "the_request t prompt"
  let ?w3 = "w\<lparr>now := now w + lat1 + 2 * second + lat2 + 4 * second,
                 trace := trace w @ [ChatCompletion ?req, Sleep (2 * second),
                                     ChatCompletion ?req, Sleep (4 * second)]\<rparr>"
  have two: "askOpenAI t (Some d) prompt w = askOpenAI_loop (Some d) ?req 2 ?w3"
    using assms(2,3)
    by (simp add: askOpenAI_def Let_def loop_0 loop_1 CreateChatCompletion_eq time_Sleep_def
          calls_def)
  have "upstream ?w3 (Some d) ?req (calls ?w3) (now ?w3) = (Inl DeadlineExceeded, 0)"
    using assms(1,4) by (simp add: honours_def)
  then show ?thesis
    unfolding two by (simp add: loop_2 CreateChatCompletion_eq)
qed

text \<open>
  With a deadline of 180 seconds and a first failure after 179 seconds, the second
  request is refused at once and the call returns at 185 seconds.
\<close>

theorem askOpenAI_finishes_schedule_after_deadline_witness:
  "honours (world0 script_slow_503) (180 * second) \<and>
   fst (askOpenAI tool0 (Some (180 * second)) ''prompt'' (world0 script_slow_503)) =
     Inl (Upstream DeadlineExceeded) \<and>
   now (snd (askOpenAI tool0 (Some (180 * second)) ''prompt'' (world0 script_slow_503))) =
     185 * second"
proof -
  have h: "honours (world0 script_slow_503) (180 * second)"
    by (simp add: honours_def world0_def scripted_def split: prod.split)
  have u1: "upstream (world0 script_slow_503) (Some (180 * second)) (the_request tool0 ''prompt'')
             (calls (world0 script_slow_503)) (now (world0 script_slow_503)) =
           (Inl (APIError 503), 179 * second)"
    by (simp add: world0_def scripted_def script_slow_503_def calls_def second_def)
  have u2: "upstream (world0 script_slow_503) (Some (180 * second)) (the_request tool0 ''prompt'')
             (calls (world0 script_slow_503) + 1)
             (now (world0 script_slow_503) + 179 * second + 2 * second) =
           (Inl DeadlineExceeded, 0)"
    by (simp add: world0_def scripted_def script_slow_503_def calls_def second_def)
  have d: "180 * second \<le> now (world0 script_slow_503) + 179 * second + 2 * second + 0 + 4 * second"
    by (simp add: world0_def)
  show ?thesis
    using h askOpenAI_finishes_schedule_after_deadline [OF h u1 u2 d]
    by (simp add: world0_def)
qed

section \<open>The dispatcher\<close>

text \<open>
  Claim C4. For every request whose method is \<open>initialize\<close>, \<open>tools/list\<close> or
  \<open>tools/call\<close>, \<open>ProcessRequest\<close> returns one response in which exactly one of \<open>Result\<close>
  and \<open>Error\<close> is set, and whose \<open>ID\<close> is the one of the request.
\<close>

theorem ProcessRequest_result_xor_error:
  assumes "req_Method req = ''initialize'' \<or> req_Method req = ''tools/list'' \<or>
           req_Method req = ''tools/call''"
  shows "(Result (fst (ProcessRequest js s req w)) = None) \<noteq>
           (Error (fst (ProcessRequest js s req w)) = None) \<and>
         ID (fst (ProcessRequest js s req w)) = req_ID req"
  using assms
  by (auto simp: ProcessRequest_def HandleToolsCall_def Let_def
           split: option.splits prod.splits)

theorem ProcessRequest_result_xor_error_witness:
  \<open>Result (fst (ProcessRequest stub_json server0
       \<lparr>req_Jsonrpc = ''2.0'', req_ID = 1, req_Method = ''initialize'', req_Params = ''{}''\<rparr>
       (world0 []))) \<noteq> None \<and>
    Error (fst (ProcessRequest stub_json server0
       \<lparr>req_Jsonrpc = ''2.0'', req_ID = 1, req_Method = ''initialize'', req_Params = ''{}''\<rparr>
       (world0 []))) = None \<and>
    ID (fst (ProcessRequest stub_json server0
       \<lparr>req_Jsonrpc = ''2.0'', req_ID = 1, req_Method = ''initialize'', req_Params = ''{}''\<rparr>
       (world0 []))) = 1 \<and>
    Result (fst (ProcessRequest stub_json server0
       \<lparr>req_Jsonrpc = ''2.0'', req_ID = 7, req_Method = ''tools/call'', req_Params = ''{}''\<rparr>
       (world0 []))) = None \<and>
    Error (fst (ProcessRequest stub_json server0
       \<lparr>req_Jsonrpc = ''2.0'', req_ID = 7, req_Method = ''tools/call'', req_Params = ''{}''\<rparr>
       (world0 []))) \<noteq> None\<close>
  using ProcessRequest_result_xor_error
          [of \<open>\<lparr>req_Jsonrpc = ''2.0'', req_ID = 1, req_Method = ''initialize'', req_Params = ''{}''\<rparr>\<close>
              stub_json server0 "world0 []"]
        ProcessRequest_result_xor_error
          [of \<open>\<lparr>req_Jsonrpc = ''2.0'', req_ID = 7, req_Method = ''tools/call'', req_Params = ''{}''\<rparr>\<close>
              stub_json server0 "world0 []"]
  by (simp add: ProcessRequest_def HandleToolsCall_def stub_json_def stub_Unmarshal_def)

text \<open>
  Claim C9. For every \<open>tools/call\<close> request whose parameters decode and name a tool that
  is not registered, the response carries the error with code -32602 and message
  "Unknown tool" and no result, its \<open>ID\<close> is the one of the request, and the world is
  returned as it was: the response is fixed before any tool could be called.
\<close>

theorem HandleToolsCall_unknown_tool:
  assumes "req_Method req = ''tools/call''"
      and "Unmarshal js (req_Params req) = Some callParams"
      and "map_of (tools s) (cp_Name callParams) = None"
  shows "ProcessRequest js s req w =
           (\<lparr>Jsonrpc = ''2.0'', ID = req_ID req, Result = None,
             Error = Some (Object [(''code'', Number (- 32602)), (''message'', String ''Unknown tool'')])\<rparr>,
            w)"
  using assms
  by (simp add: ProcessRequest_def HandleToolsCall_def rpc_error_def)

theorem HandleToolsCall_unknown_tool_witness:
  \<open>ProcessRequest stub_json server0
       \<lparr>req_Jsonrpc = ''2.0'', req_ID = 3, req_Method = ''tools/call'',
        req_Params = ''{"name":"nope","arguments":{}}''\<rparr> (world0 []) =
     (\<lparr>Jsonrpc = ''2.0'', ID = 3, Result = None,
       Error = Some (Object [(''code'', Number (- 32602)), (''message'', String ''Unknown tool'')])\<rparr>,
      world0 [])\<close>
  using HandleToolsCall_unknown_tool
          [of \<open>\<lparr>req_Jsonrpc = ''2.0'', req_ID = 3, req_Method = ''tools/call'',
                 req_Params = ''{"name":"nope","arguments":{}}''\<rparr>\<close> stub_json
              \<open>\<lparr>cp_Name = ''nope'', cp_Arguments = Map.empty\<rparr>\<close> server0 "world0 []"]
  by (simp add: stub_json_def stub_Unmarshal_def server0_def RegisterTool_def NewMCPServer_def
        as_Tool_def Name_def)

section \<open>The transport bindings\<close>

text \<open>
  Claim C8, as stated, fails: a line that does not decode is not answered at all. With
  one line that holds a JSON value of the wrong type and then the end of input,
  \<open>RunStdio\<close> returns having written nothing.
\<close>

theorem RunStdio_counterexample:
  "RunStdio stub_json server0 [Mismatch] (world0 []) = Some ([], world0 [])"
  by (simp add: RunStdio_def NewDecoder_def RunStdio_loop.simps Decoder_Decode_def)

text \<open>
  Claim C8, amended. In the stdio binding, on every input whose lines all hold complete
  JSON values, a line that fails to decode is not passed to the dispatcher and gets no
  response (the failure is only logged); the binding goes on with the following lines,
  and the end of input ends the loop normally. What it wrote by then are the responses of
  \<open>ProcessRequest\<close> to the requests that did decode, in their order, and nothing else.
  Nothing is said here about input that holds text which is not JSON.
\<close>

theorem RunStdio_skips_failures:
  assumes "Malformed \<notin> set stdin"
  shows "RunStdio js s stdin w = Some (answers js s (requests stdin) w)"
  using RunStdio_loop_answers [OF assms, of js s "[]" w]
  by (simp add: RunStdio_def NewDecoder_def split: prod.split)

theorem RunStdio_skips_failures_witness:
  "RunStdio stub_json server0
     [Mismatch,
      Valid \<lparr>req_Jsonrpc = ''2.0'', req_ID = 1, req_Method = ''ping'', req_Params = []\<rparr>,
      Mismatch,
      Valid \<lparr>req_Jsonrpc = ''2.0'', req_ID = 2, req_Method = ''initialize'', req_Params = []\<rparr>]
     (world0 []) =
   Some ([\<lparr>Jsonrpc = ''2.0'', ID = 1, Result = None,
           Error = Some (Object [(''code'', Number (- 32601)), (''message'', String ''Method not found'')])\<rparr>,
          \<lparr>Jsonrpc = ''2.0'', ID = 2, Result = Some (HandleInitialize server0), Error = None\<rparr>],
         world0 [])"
  using RunStdio_skips_failures
          [of "[Mismatch,
      Valid \<lparr>req_Jsonrpc = ''2.0'', req_ID = 1, req_Method = ''ping'', req_Params = []\<rparr>,
      Mismatch,
      Valid \<lparr>req_Jsonrpc = ''2.0'', req_ID = 2, req_Method = ''initialize'', req_Params = []\<rparr>]"
              stub_json server0 "world0 []"]
  by (simp add: ProcessRequest_def rpc_error_def)

text \<open>
  Input that holds text which is not JSON is another matter: the decoder keeps the syntax
  error, every later call of \<open>Decode\<close> returns it, the loop reads no further line and
  never meets the end of input. \<open>RunStdio\<close> does not return.
\<close>

lemma RunStdio_spins_after_syntax_error:
  assumes "Malformed \<in> set stdin"
  shows "RunStdio js s stdin w = None"
proof (cases "RunStdio js s stdin w")
  case None
  then show ?thesis .
next
  case (Some y)
  then have "Malformed \<notin> set stdin"
    using RunStdio_loop_returns [of js s "NewDecoder stdin" "[]" w y]
    by (simp add: RunStdio_def NewDecoder_def)
  with assms show ?thesis by simp
qed

text \<open>
  Claim C7, as stated, fails in the body of the 400 response: \<open>http.Error\<close> writes the
  message itself as plain text, followed by a newline, not a JSON object.
\<close>

theorem HandleHTTP_malformed_counterexample:
  \<open>fst (HandleHTTP stub_json server0 \<lparr>http_Method = ''POST'', http_Body = ''invalid json''\<rparr>
          (world0 [])) =
     Written \<lparr>Code = 400, ContentType = ''text/plain; charset=utf-8'',
              Body = Bytes (''malformed request'' @ [CHR 0x0A])\<rparr> \<and>
   Bytes (''malformed request'' @ [CHR 0x0A]) \<noteq> Bytes malformed_json \<and>
   Bytes (''malformed request'' @ [CHR 0x0A]) \<noteq> Bytes (malformed_json @ [CHR 0x0A]) \<and>
   Bytes (''malformed request'' @ [CHR 0x0A]) \<noteq>
     Encoded (Object [(''error'', String ''malformed request'')])\<close>
  by (simp add: HandleHTTP_def stub_json_def stub_Decode_def http_Error_def nl_def
        malformed_json_def)

text \<open>
  Claim C7, amended. On a server where \<open>get_help\<close> is the registered help tool, the HTTP
  binding answers every request that is not a POST with status 405; every POST whose
  body does not decode with status 400 and the plain text "malformed request"; every
  POST for which \<open>Call\<close> fails with status 503 and the fixed JSON text
  \<open>{"error":"The architect is currently unavailable. Please try again later."}\<close>; every
  POST for which \<open>Call\<close> succeeds with status 200 and the JSON object whose \<open>answer\<close> is
  the text of the single content block. It never panics and no other status occurs.
\<close>

theorem HandleHTTP_responses:
  assumes "map_of (tools s) ''get_help'' = Some (as_Tool t)"
  shows
   "(http_Method r \<noteq> ''POST'' \<longrightarrow>
       HandleHTTP js s r w = (Written (http_Error ''Method not allowed'' 405), w)) \<and>
    (http_Method r = ''POST'' \<and> Decode js (http_Body r) = None \<longrightarrow>
       HandleHTTP js s r w = (Written (http_Error ''malformed request'' 400), w)) \<and>
    (\<forall>arguments content err w1.
       http_Method r = ''POST'' \<and> Decode js (http_Body r) = Some arguments \<and>
       Call t arguments w = ((content, Some err), w1) \<longrightarrow>
       HandleHTTP js s r w = (Written (http_Error unavailable_json 503), w1)) \<and>
    (\<forall>arguments content w1.
       http_Method r = ''POST'' \<and> Decode js (http_Body r) = Some arguments \<and>
       Call t arguments w = ((content, None), w1) \<longrightarrow>
       (\<exists>answer. content = [text_block answer] \<and>
          HandleHTTP js s r w =
            (Written \<lparr>Code = 200, ContentType = ''application/json'',
                      Body = Encoded (Object [(''answer'', String answer)])\<rparr>, w1))) \<and>
    (\<exists>resp. fst (HandleHTTP js s r w) = Written resp \<and>
       (Code resp = 200 \<or> Code resp = 400 \<or> Code resp = 405 \<or> Code resp = 503))"
proof -
  have a: "http_Method r \<noteq> ''POST'' \<longrightarrow>
       HandleHTTP js s r w = (Written (http_Error ''Method not allowed'' 405), w)"
    by (simp add: HandleHTTP_def)
  have b: "http_Method r = ''POST'' \<and> Decode js (http_Body r) = None \<longrightarrow>
       HandleHTTP js s r w = (Written (http_Error ''malformed request'' 400), w)"
    by (simp add: HandleHTTP_def)
  have c: "HandleHTTP js s r w = (Written (http_Error unavailable_json 503), w1)"
    if "http_Method r = ''POST'' \<and> Decode js (http_Body r) = Some arguments \<and>
       Call t arguments w = ((content, Some err), w1)" for arguments content err w1
    using that assms by (simp add: HandleHTTP_def as_Tool_def)
  have d: "\<exists>answer. content = [text_block answer] \<and>
          HandleHTTP js s r w =
            (Written \<lparr>Code = 200, ContentType = ''application/json'',
                      Body = Encoded (Object [(''answer'', String answer)])\<rparr>, w1)"
    if h: "http_Method r = ''POST'' \<and> Decode js (http_Body r) = Some arguments \<and>
       Call t arguments w = ((content, None), w1)" for arguments content w1
  proof -
    from h Call_success_content obtain answer where "content = [text_block answer]" by blast
    with h assms show ?thesis
      by (simp add: HandleHTTP_def as_Tool_def text_block_def)
  qed
  have e: "\<exists>resp. fst (HandleHTTP js s r w) = Written resp \<and>
       (Code resp = 200 \<or> Code resp = 400 \<or> Code resp = 405 \<or> Code resp = 503)"
  proof (cases "http_Method r = ''POST''")
    case False
    with a show ?thesis by (simp add: http_Error_def)
  next
    case post: True
    show ?thesis
    proof (cases "Decode js (http_Body r)")
      case None
      with post b show ?thesis by (simp add: http_Error_def)
    next
      case (Some arguments)
      obtain content eo w1 where call: "Call t arguments w = ((content, eo), w1)"
        by (metis surj_pair)
      show ?thesis
      proof (cases eo)
        case None
        with d [of arguments content w1] post Some call show ?thesis by auto
      next
        case (Some err)
        with c [of arguments content err w1] post \<open>Decode js (http_Body r) = Some arguments\<close> call
        show ?thesis by (simp add: http_Error_def)
      qed
    qed
  qed
  from a b c d e show ?thesis by blast
qed

text \<open>
  Three answers of the stub server: a body with both fields gets status 200 and the
  answer of the service, a body without \<open>question\<close> status 503, a GET status 405.
\<close>

theorem HandleHTTP_responses_witness:
  \<open>HandleHTTP stub_json server0
      \<lparr>http_Method = ''POST'',
       http_Body = ''{"question":"How do I test this?","summary":"Test project"}''\<rparr>
      (world0 script_ok) =
    (Written \<lparr>Code = 200, ContentType = ''application/json'',
              Body = Encoded (Object [(''answer'', String ''Use table-driven tests.'')])\<rparr>,
     (world0 script_ok)
      \<lparr>now := second,
       trace := [ReadFile ''./README.md'',
                 ChatCompletion \<lparr>Model = ''gpt-4o'',
                   Content = rendered ''# MCP Escalator'' ''How do I test this?'' []\<rparr>]\<rparr>) \<and>
    HandleHTTP stub_json server0
      \<lparr>http_Method = ''POST'', http_Body = ''{"summary":"Test project"}''\<rparr> (world0 script_ok) =
    (Written \<lparr>Code = 503, ContentType = ''text/plain; charset=utf-8'',
              Body = Bytes (unavailable_json @ [CHR 0x0A])\<rparr>, world0 script_ok) \<and>
    HandleHTTP stub_json server0 \<lparr>http_Method = ''GET'', http_Body = []\<rparr> (world0 script_ok) =
    (Written \<lparr>Code = 405, ContentType = ''text/plain; charset=utf-8'',
              Body = Bytes (''Method not allowed'' @ [CHR 0x0A])\<rparr>, world0 script_ok)\<close>
proof -
  let ?good = \<open>\<lparr>http_Method = ''POST'',
       http_Body = ''{"question":"How do I test this?","summary":"Test project"}''\<rparr>\<close>
  let ?short = \<open>\<lparr>http_Method = ''POST'', http_Body = ''{"summary":"Test project"}''\<rparr>\<close>
  let ?get = \<open>\<lparr>http_Method = ''GET'', http_Body = []\<rparr>\<close>
  note reg = get_help_registered
  have dec_good: "Decode stub_json (http_Body ?good) =
      Some [''question'' \<mapsto> String ''How do I test this?'', ''summary'' \<mapsto> String ''Test project'']"
    by (simp add: stub_json_def stub_Decode_def)
  have dec_short: "Decode stub_json (http_Body ?short) = Some [''summary'' \<mapsto> String ''Test project'']"
    by (simp add: stub_json_def stub_Decode_def)
  have call_short: "Call tool0 [''summary'' \<mapsto> String ''Test project''] (world0 script_ok) =
      ((fst missing_fields_result, Some MissingRequiredFields), world0 script_ok)"
    using Call_early [of "[''summary'' \<mapsto> String ''Test project'']" tool0 "world0 script_ok"]
    by (simp add: missing_fields_result_def)
  from HandleHTTP_responses [OF reg, of ?good stub_json "world0 script_ok"] dec_good Call_ok
  have one: "HandleHTTP stub_json server0 ?good (world0 script_ok) =
    (Written \<lparr>Code = 200, ContentType = ''application/json'',
              Body = Encoded (Object [(''answer'', String ''Use table-driven tests.'')])\<rparr>,
     (world0 script_ok)
      \<lparr>now := second,
       trace := [ReadFile ''./README.md'',
                 ChatCompletion \<lparr>Model = ''gpt-4o'',
                   Content = rendered ''# MCP Escalator'' ''How do I test this?'' []\<rparr>]\<rparr>)"
    by (simp add: text_block_def)
  from HandleHTTP_responses [OF reg, of ?short stub_json "world0 script_ok"] dec_short call_short
  have two: "HandleHTTP stub_json server0 ?short (world0 script_ok) =
    (Written \<lparr>Code = 503, ContentType = ''text/plain; charset=utf-8'',
              Body = Bytes (unavailable_json @ [CHR 0x0A])\<rparr>, world0 script_ok)"
    by (simp add: http_Error_def nl_def)
  from HandleHTTP_responses [OF reg, of ?get stub_json "world0 script_ok"]
  have three: "HandleHTTP stub_json server0 ?get (world0 script_ok) =
    (Written \<lparr>Code = 405, ContentType = ''text/plain; charset=utf-8'',
              Body = Bytes (''Method not allowed'' @ [CHR 0x0A])\<rparr>, world0 script_ok)"
    by (simp add: http_Error_def nl_def)
  from one two three show ?thesis by simp
qed

end
